theory Spec2Isabelle
  imports Complex_Main
begin

unbundle bit_operations_syntax

section \<open>Hyundai CAN-FD frame composers (opendbc/car/hyundai/hyundaicanfd.py)\<close>

text \<open>
  A shallow embedding of the frame composers. Python's unbounded integers are \<open>int\<close>.
  Signal values (Python ints and floats, which compare by numeric value) are modelled as
  \<open>real\<close>: arithmetic on them is exact, so rounding errors of IEEE doubles are outside
  the model. A signal dictionary is a map from signal names to values. The packer is an
  external collaborator that only receives the triple (message name, bus, values); a frame
  is that triple.
\<close>

subsection \<open>Data model\<close>

type_synonym signals = "string \<rightharpoonup> real"

datatype py_error = KeyError string

record can_msg =
  msg :: string
  bus :: int
  dat :: signals

definition make_can_msg :: "string \<Rightarrow> int \<Rightarrow> signals \<Rightarrow> can_msg" where
  "make_can_msg name b values = \<lparr>msg = name, bus = b, dat = values\<rparr>"

text \<open>
  Modelled from the spec: the bit masks of \<open>HyundaiFlags\<close> (opendbc.car.hyundai.values)
  and the conversion table \<open>Conversions\<close> are not part of this file; the composers take
  them as parameters. A flag test \<open>CP.flags & HyundaiFlags.X\<close> is true when the bitwise
  conjunction is not zero.
\<close>

record HyundaiFlags =
  CANFD_LKA_STEERING :: int
  CANFD_LKA_STEERING_ALT :: int
  CANFD_CAMERA_SCC :: int

record Conversions =
  KPH_TO_MPH :: real

record CarParams =
  flags :: int
  openpilotLongitudinalControl :: bool

definition truthy :: "int \<Rightarrow> bool" where
  "truthy n = (n \<noteq> 0)"

record HUDControl =
  leftLaneVisible :: bool
  rightLaneVisible :: bool
  leftLaneDepart :: bool
  rightLaneDepart :: bool
  leadVisible :: bool
  leadDistanceBars :: real

record CarControl =
  enabled :: bool
  hudControl :: HUDControl
  leftBlinker :: bool
  rightBlinker :: bool

record CarStateOut =
  leftBlindspot :: bool
  rightBlindspot :: bool
  vEgo :: real
  vCruiseCluster :: real

record CarState =
  msg_161 :: signals
  msg_162 :: signals
  out :: CarStateOut
  is_metric :: bool

subsection \<open>Dictionary helpers\<close>

text \<open>
  The comprehension \<open>{s: src[s] for s in keys}\<close>: keys are read left to right and a
  missing key raises \<open>KeyError\<close>.
\<close>

fun dict_comp :: "string list \<Rightarrow> signals \<Rightarrow> signals \<Rightarrow> py_error + signals" where
  "dict_comp [] src acc = Inr acc"
| "dict_comp (s # ss) src acc =
     (case src s of
        None \<Rightarrow> Inl (KeyError s)
      | Some v \<Rightarrow> dict_comp ss src (acc(s \<mapsto> v)))"

text \<open>A signal of a composer's result; \<open>None\<close> when the composer raised.\<close>

definition frame_signal :: "py_error + can_msg \<Rightarrow> string \<Rightarrow> real option" where
  "frame_signal r k = (case r of Inl e \<Rightarrow> None | Inr m \<Rightarrow> dat m k)"

subsection \<open>Bus topology: class CanBus\<close>

text \<open>
  Modelled from the spec: \<open>CanBusBase.__init__\<close> (opendbc.car) is not part of this file;
  it sets \<open>self.offset\<close>, the multi-bus offset, which the constructor takes here as the
  parameter \<open>offset\<close>. The optional argument \<open>lka_steering\<close> is \<open>None\<close> or a bool;
  \<open>CP\<close> may be \<open>None\<close>.
\<close>

record CanBus =
  bus_offset :: int
  bus_a :: int
  bus_e :: int
  bus_cam :: int

text \<open>
  The value of \<open>lka_steering\<close> after the default is resolved:
  \<open>CP.flags & HyundaiFlags.CANFD_LKA_STEERING.value if CP is not None else False\<close>
  when the argument is \<open>None\<close>.
\<close>

definition lka_steering_variant :: "HyundaiFlags \<Rightarrow> CarParams option \<Rightarrow> bool option \<Rightarrow> bool" where
  "lka_steering_variant HF CP lka_steering =
     (case lka_steering of
        Some b \<Rightarrow> b
      | None \<Rightarrow> (case CP of
                   Some cp \<Rightarrow> truthy (flags cp AND CANFD_LKA_STEERING HF)
                 | None \<Rightarrow> False))"

definition CanBus_init :: "HyundaiFlags \<Rightarrow> int \<Rightarrow> CarParams option \<Rightarrow> bool option \<Rightarrow> CanBus" where
  "CanBus_init HF offset CP lka_steering =
     (let ae = (if lka_steering_variant HF CP lka_steering then (0, 1) else (1, 0))
      in \<lparr>bus_offset = offset,
          bus_a = fst ae + offset,
          bus_e = snd ae + offset,
          bus_cam = 2 + offset\<rparr>)"

definition ECAN :: "CanBus \<Rightarrow> int" where
  "ECAN CAN = bus_e CAN"

definition ACAN :: "CanBus \<Rightarrow> int" where
  "ACAN CAN = bus_a CAN"

definition CAM :: "CanBus \<Rightarrow> int" where
  "CAM CAN = bus_cam CAN"

subsection \<open>Steering, suppression and buttons\<close>

definition create_steering_messages ::
  "HyundaiFlags \<Rightarrow> CarParams \<Rightarrow> CanBus \<Rightarrow> bool \<Rightarrow> bool \<Rightarrow> real \<Rightarrow> can_msg list" where
  "create_steering_messages HF CP CAN enabled' lat_active apply_torque =
     (let common_values = [
            ''LKA_MODE'' \<mapsto> 2,
            ''LKA_ICON'' \<mapsto> (if enabled' then 2 else 1),
            ''TORQUE_REQUEST'' \<mapsto> apply_torque,
            ''LKA_ASSIST'' \<mapsto> 0,
            ''STEER_REQ'' \<mapsto> (if lat_active then 1 else 0),
            ''STEER_MODE'' \<mapsto> 0,
            ''HAS_LANE_SAFETY'' \<mapsto> 0,
            ''NEW_SIGNAL_2'' \<mapsto> 0];
          lkas_values = common_values(''LKA_AVAILABLE'' \<mapsto> 0);
          lfa_values = common_values(''NEW_SIGNAL_1'' \<mapsto> 0)
      in if truthy (flags CP AND CANFD_LKA_STEERING HF) then
           (let lkas_msg = (if truthy (flags CP AND CANFD_LKA_STEERING_ALT HF)
                            then ''LKAS_ALT'' else ''LKAS'')
            in (if openpilotLongitudinalControl CP
                then [make_can_msg ''LFA'' (ECAN CAN) lfa_values] else [])
               @ [make_can_msg lkas_msg (ACAN CAN) lkas_values])
         else [make_can_msg ''LFA'' (ECAN CAN) lfa_values])"

text \<open>Python's \<open>str\<close> of a non-negative integer, as the f-string \<open>f"BYTE{i}"\<close> formats it.\<close>

fun str_nat :: "nat \<Rightarrow> string" where
  "str_nat n =
     (if n < 10 then [''0123456789'' ! n]
      else str_nat (n div 10) @ [''0123456789'' ! (n mod 10)])"

declare str_nat.simps [simp del]

definition byte_name :: "nat \<Rightarrow> string" where
  "byte_name i = ''BYTE'' @ str_nat i"

definition create_suppress_lfa :: "CanBus \<Rightarrow> signals \<Rightarrow> bool \<Rightarrow> py_error + can_msg" where
  "create_suppress_lfa CAN lfa_block_msg lka_steering_alt =
     (let suppress_msg = (if lka_steering_alt then ''CAM_0x362'' else ''CAM_0x2a4'');
          msg_bytes = (if lka_steering_alt then 32 else 24)
      in case dict_comp (map byte_name (filter (\<lambda>i. i \<noteq> 7) [3..<msg_bytes]))
                lfa_block_msg Map.empty of
           Inl e \<Rightarrow> Inl e
         | Inr values \<Rightarrow>
             (case lfa_block_msg ''COUNTER'' of
                None \<Rightarrow> Inl (KeyError ''COUNTER'')
              | Some c \<Rightarrow>
                  Inr (make_can_msg suppress_msg (ACAN CAN)
                         (values(''COUNTER'' \<mapsto> c,
                                 ''SET_ME_0'' \<mapsto> 0,
                                 ''SET_ME_0_2'' \<mapsto> 0,
                                 ''LEFT_LANE_LINE'' \<mapsto> 0,
                                 ''RIGHT_LANE_LINE'' \<mapsto> 0)))))"

definition create_buttons :: "HyundaiFlags \<Rightarrow> CarParams \<Rightarrow> CanBus \<Rightarrow> real \<Rightarrow> real \<Rightarrow> can_msg" where
  "create_buttons HF CP CAN cnt btn =
     (let values = [''COUNTER'' \<mapsto> cnt, ''SET_ME_1'' \<mapsto> 1, ''CRUISE_BUTTONS'' \<mapsto> btn];
          b = (if truthy (flags CP AND CANFD_LKA_STEERING HF) then ECAN CAN else CAM CAN)
      in make_can_msg ''CRUISE_BUTTONS'' b values)"

subsection \<open>Cruise cancel and acceleration command\<close>

text \<open>The two literal field lists of \<open>create_acc_cancel\<close>, selected by the camera-SCC flag.\<close>

definition acc_cancel_fields :: "bool \<Rightarrow> string list" where
  "acc_cancel_fields camera_scc =
     (if camera_scc then
        [''COUNTER'', ''CHECKSUM'', ''NEW_SIGNAL_1'', ''MainMode_ACC'', ''ACCMode'',
         ''ZEROS_9'', ''CRUISE_STANDSTILL'', ''ZEROS_5'', ''DISTANCE_SETTING'', ''VSetDis'']
      else
        [''COUNTER'', ''CHECKSUM'', ''ACCMode'', ''VSetDis'', ''CRUISE_STANDSTILL''])"

definition create_acc_cancel ::
  "HyundaiFlags \<Rightarrow> CarParams \<Rightarrow> CanBus \<Rightarrow> signals \<Rightarrow> py_error + can_msg" where
  "create_acc_cancel HF CP CAN cruise_info_copy =
     (case dict_comp (acc_cancel_fields (truthy (flags CP AND CANFD_CAMERA_SCC HF)))
             cruise_info_copy Map.empty of
        Inl e \<Rightarrow> Inl e
      | Inr values \<Rightarrow>
          Inr (make_can_msg ''SCC_CONTROL'' (ECAN CAN)
                 (values(''ACCMode'' \<mapsto> 4, ''aReqRaw'' \<mapsto> 0, ''aReqValue'' \<mapsto> 0))))"

definition create_lfahda_cluster :: "CanBus \<Rightarrow> bool \<Rightarrow> can_msg" where
  "create_lfahda_cluster CAN enabled' =
     make_can_msg ''LFAHDA_CLUSTER'' (ECAN CAN)
       [''HDA_ICON'' \<mapsto> (if enabled' then 1 else 0),
        ''LFA_ICON'' \<mapsto> (if enabled' then 2 else 0)]"

text \<open>\<open>np.clip(x, lo, hi)\<close> is \<open>minimum(maximum(x, lo), hi)\<close>.\<close>

definition np_clip :: "real \<Rightarrow> real \<Rightarrow> real \<Rightarrow> real" where
  "np_clip x lo hi = min (max x lo) hi"

text \<open>
  The dictionary \<open>values\<close> that \<open>create_acc_control\<close> builds (source lines 201 to 220),
  before the object-distance fields are merged into it.
\<close>

definition acc_control_values ::
  "bool \<Rightarrow> real \<Rightarrow> real \<Rightarrow> bool \<Rightarrow> bool \<Rightarrow> real \<Rightarrow> HUDControl \<Rightarrow> signals" where
  "acc_control_values enabled' accel_last accel stopping gas_override set_speed hud_control =
     (let jerk = 5;
          jn = jerk / 50;
          a = (if \<not> enabled' \<or> gas_override then (0, 0)
               else (accel, np_clip accel (accel_last - jn) (accel_last + jn)));
          a_raw = fst a;
          a_val = snd a
      in [''ACCMode'' \<mapsto> (if \<not> enabled' then 0 else (if gas_override then 2 else 1)),
          ''MainMode_ACC'' \<mapsto> 1,
          ''StopReq'' \<mapsto> (if stopping then 1 else 0),
          ''aReqValue'' \<mapsto> a_val,
          ''aReqRaw'' \<mapsto> a_raw,
          ''VSetDis'' \<mapsto> set_speed,
          ''JerkLowerLimit'' \<mapsto> (if enabled' then jerk else 1),
          ''JerkUpperLimit'' \<mapsto> 3.0,
          ''ObjValid'' \<mapsto> 0,
          ''OBJ_STATUS'' \<mapsto> 2,
          ''SET_ME_2'' \<mapsto> 4,
          ''SET_ME_3'' \<mapsto> 3,
          ''SET_ME_TMP_64'' \<mapsto> 100,
          ''DISTANCE_SETTING'' \<mapsto> leadDistanceBars hud_control])"

text \<open>
  \<open>values.update(...)\<close> merges \<open>{"ACC_ObjDist": 1}\<close> when no cruise snapshot is given, and
  otherwise the two fields read from the snapshot, which raises when one is missing.
\<close>

definition create_acc_control ::
  "CanBus \<Rightarrow> bool \<Rightarrow> real \<Rightarrow> real \<Rightarrow> bool \<Rightarrow> bool \<Rightarrow> real \<Rightarrow> HUDControl \<Rightarrow> signals option
   \<Rightarrow> py_error + can_msg" where
  "create_acc_control CAN enabled' accel_last accel stopping gas_override set_speed hud_control
     cruise_info =
     (case (case cruise_info of
              None \<Rightarrow> Inr [''ACC_ObjDist'' \<mapsto> 1]
            | Some ci \<Rightarrow> dict_comp [''ACC_ObjDist'', ''ACC_ObjRelSpd''] ci Map.empty) of
        Inl e \<Rightarrow> Inl e
      | Inr upd \<Rightarrow>
          Inr (make_can_msg ''SCC_CONTROL'' (ECAN CAN)
                 (acc_control_values enabled' accel_last accel stopping gas_override set_speed
                    hud_control ++ upd)))"

subsection \<open>Parking assist and ADAS keep-alive frames\<close>

definition create_spas_messages :: "CanBus \<Rightarrow> int \<Rightarrow> bool \<Rightarrow> bool \<Rightarrow> can_msg list" where
  "create_spas_messages CAN frame left_blink right_blink =
     (let blink = (if left_blink then 3 else if right_blink then 4 else 0)
      in [make_can_msg ''SPAS1'' (ECAN CAN) Map.empty,
          make_can_msg ''SPAS2'' (ECAN CAN) [''BLINKER_CONTROL'' \<mapsto> blink]])"

definition create_fca_warning_light :: "CanBus \<Rightarrow> int \<Rightarrow> can_msg list" where
  "create_fca_warning_light CAN frame =
     (if frame mod 2 = 0 then
        [make_can_msg ''ADRV_0x160'' (ECAN CAN)
           [''AEB_SETTING'' \<mapsto> 1, ''SET_ME_2'' \<mapsto> 2, ''SET_ME_FF'' \<mapsto> 255,
            ''SET_ME_FC'' \<mapsto> 252, ''SET_ME_9'' \<mapsto> 9]]
      else [])"

definition create_adrv_messages :: "CanBus \<Rightarrow> int \<Rightarrow> can_msg list" where
  "create_adrv_messages CAN frame =
     [make_can_msg ''ADRV_0x51'' (ACAN CAN) Map.empty]
     @ create_fca_warning_light CAN frame
     @ (if frame mod 5 = 0 then
          [make_can_msg ''ADRV_0x1ea'' (ECAN CAN)
             [''SET_ME_1C'' \<mapsto> 28, ''SET_ME_FF'' \<mapsto> 255, ''SET_ME_TMP_F'' \<mapsto> 15,
              ''SET_ME_TMP_F_2'' \<mapsto> 15],
           make_can_msg ''ADRV_0x200'' (ECAN CAN)
             [''SET_ME_E1'' \<mapsto> 225, ''SET_ME_3A'' \<mapsto> 58]]
        else [])
     @ (if frame mod 20 = 0 then
          [make_can_msg ''ADRV_0x345'' (ECAN CAN) [''SET_ME_15'' \<mapsto> 21]]
        else [])
     @ (if frame mod 100 = 0 then
          [make_can_msg ''ADRV_0x1da'' (ECAN CAN) [''SET_ME_22'' \<mapsto> 34, ''SET_ME_41'' \<mapsto> 65]]
        else [])"

text \<open>
  The frames of a run of control cycles, one call per value of the cycle counter, and the
  number of frames of a run with a given message name on a given bus.
\<close>

definition adrv_run :: "CanBus \<Rightarrow> int list \<Rightarrow> can_msg list" where
  "adrv_run CAN frames = concat (map (create_adrv_messages CAN) frames)"

definition count_frames :: "string \<Rightarrow> int \<Rightarrow> can_msg list \<Rightarrow> nat" where
  "count_frames name b ms = length (filter (\<lambda>m. msg m = name \<and> bus m = b) ms)"

subsection \<open>Cluster and HUD overlay\<close>

text \<open>
  Python's \<open>round\<close> of a number to an integer rounds halves to the even neighbour.
\<close>

definition py_round :: "real \<Rightarrow> int" where
  "py_round x =
     (let f = \<lfloor>x\<rfloor>; d = x - of_int f
      in if d < 1 / 2 then f
         else if 1 / 2 < d then f + 1
         else if even f then f else f + 1)"

text \<open>The idiom \<open>if m.get(k) == v: m[k] = 0\<close>.\<close>

definition clear_alert :: "string \<Rightarrow> real \<Rightarrow> signals \<Rightarrow> signals" where
  "clear_alert k v m = (if m k = Some v then m(k \<mapsto> 0) else m)"

text \<open>The test \<open>m.get(k) in vs\<close>: a missing key gives \<open>None\<close>, which is in no tuple of numbers.\<close>

definition get_in :: "signals \<Rightarrow> string \<Rightarrow> real list \<Rightarrow> bool" where
  "get_in m k vs = (case m k of None \<Rightarrow> False | Some v \<Rightarrow> v \<in> set vs)"

text \<open>Source lines 131 and 132: the five fault fields of page B are cleared.\<close>

definition ccnc_clear_faults :: "signals \<Rightarrow> signals" where
  "ccnc_clear_faults m162 =
     fold (\<lambda>f m. m(f \<mapsto> 0))
       [''FAULT_LSS'', ''FAULT_HDA'', ''FAULT_DAS'', ''FAULT_LFA'', ''FAULT_DAW''] m162"

text \<open>Source lines 134 to 150: stock alerts of page A that are hidden while displayed.\<close>

definition ccnc_hide_alerts :: "signals \<Rightarrow> signals" where
  "ccnc_hide_alerts m161 =
     (let m161a = clear_alert ''ALERTS_5'' 5
                    (clear_alert ''ALERTS_5'' 4
                      (clear_alert ''ALERTS_5'' 2
                        (clear_alert ''ALERTS_3'' 17 m161)));
          m161b = (if m161a ''ALERTS_2'' = Some 5
                   then m161a(''ALERTS_2'' \<mapsto> 0, ''SOUNDS_2'' \<mapsto> 0) else m161a)
      in if m161b ''SOUNDS_4'' = Some 2 \<and> get_in m161b ''LFA_ICON'' [3, 0]
         then m161b(''SOUNDS_4'' \<mapsto> 0) else m161b)"

text \<open>Source lines 152 to 173: icons, lane lines and blinker arrows of page A.\<close>

definition ccnc_lane_overlay :: "CarControl \<Rightarrow> CarState \<Rightarrow> bool \<Rightarrow> signals \<Rightarrow> signals" where
  "ccnc_lane_overlay CC CS lat_active m161 =
     (let enabled' = enabled CC;
          hud = hudControl CC
      in m161(
            ''DAW_ICON'' \<mapsto> 0,
            ''LKA_ICON'' \<mapsto> 0,
            ''LFA_ICON'' \<mapsto> (if lat_active \<or> enabled' then 2 else 1),
            ''CENTERLINE'' \<mapsto> (if lat_active \<or> enabled' then 1 else 0),
            ''LANELINE_LEFT'' \<mapsto>
              (if \<not> leftLaneVisible hud then 1
               else if leftLaneDepart hud then 4
               else if \<not> (lat_active \<or> enabled') then 0
               else if leftBlindspot (out CS) \<or> vEgo (out CS) < 8.94 then 2 else 6),
            ''LANELINE_RIGHT'' \<mapsto>
              (if \<not> rightLaneVisible hud then 1
               else if rightLaneDepart hud then 4
               else if \<not> (lat_active \<or> enabled') then 0
               else if rightBlindspot (out CS) \<or> vEgo (out CS) < 8.94 then 2 else 6),
            ''LCA_LEFT_ARROW'' \<mapsto> (if leftBlinker CC then 2 else 0),
            ''LCA_RIGHT_ARROW'' \<mapsto> (if rightBlinker CC then 2 else 0),
            ''LANE_LEFT'' \<mapsto> (if leftBlinker CC then 1 else 0),
            ''LANE_RIGHT'' \<mapsto> (if rightBlinker CC then 1 else 0)))"

text \<open>
  Source lines 179 to 194: the overlay of page A when this stack owns longitudinal control.
\<close>

definition ccnc_longitudinal_overlay ::
  "Conversions \<Rightarrow> CarControl \<Rightarrow> CarState \<Rightarrow> signals \<Rightarrow> signals" where
  "ccnc_longitudinal_overlay CV CC CS m161 =
     (let enabled' = enabled CC;
          hud = hudControl CC;
          s = py_round (vCruiseCluster (out CS) * (if is_metric CS then 1 else KPH_TO_MPH CV));
          m161e = m161(
            ''SETSPEED'' \<mapsto> (if enabled' then 3 else 1),
            ''SETSPEED_HUD'' \<mapsto> (if enabled' then 2 else 1),
            ''SETSPEED_SPEED'' \<mapsto> (if s > 100 then 25 else of_int s),
            ''DISTANCE'' \<mapsto> leadDistanceBars hud,
            ''DISTANCE_SPACING'' \<mapsto> (if enabled' then 1 else 0),
            ''DISTANCE_LEAD'' \<mapsto>
              (if enabled' \<and> leadVisible hud then 2 else if enabled' then 1 else 0),
            ''DISTANCE_CAR'' \<mapsto> (if enabled' then 2 else 1),
            ''SLA_ICON'' \<mapsto> 0);
          m161f = (if get_in m161e ''ALERTS_3'' [1, 2, 3, 4, 7, 8, 9, 10]
                   then m161e(''ALERTS_3'' \<mapsto> 0) else m161e)
      in if get_in m161f ''NAV_ICON'' [2, 4] then m161f(''NAV_ICON'' \<mapsto> 1) else m161f)"

definition create_ccnc ::
  "Conversions \<Rightarrow> CanBus \<Rightarrow> CarParams \<Rightarrow> CarControl \<Rightarrow> CarState \<Rightarrow> bool \<Rightarrow> can_msg list" where
  "create_ccnc CV CAN CP CC CS lat_active =
     (let hud = hudControl CC;
          m162a = ccnc_clear_faults (msg_162 CS);
          m161a = ccnc_lane_overlay CC CS lat_active (ccnc_hide_alerts (msg_161 CS));
          m162b = (if leftLaneDepart hud \<or> rightLaneDepart hud
                   then m162a(''VIBRATE'' \<mapsto> 1) else m162a);
          ms = (if openpilotLongitudinalControl CP
                then (ccnc_longitudinal_overlay CV CC CS m161a, m162b(''LEAD'' \<mapsto> 0))
                else (m161a, m162b))
      in [make_can_msg ''CCNC_0x161'' (ECAN CAN) (fst ms),
          make_can_msg ''CCNC_0x162'' (ECAN CAN) (snd ms)])"

text \<open>
  The lane-line indicator as the specification words it: not visible gives 1, departing
  gives 4, neither lateral-active nor enabled gives 0, blind spot occupied or speed below
  8.94 gives 2, otherwise 6.
\<close>

definition lane_line_priority :: "bool \<Rightarrow> bool \<Rightarrow> bool \<Rightarrow> bool \<Rightarrow> bool \<Rightarrow> real \<Rightarrow> real" where
  "lane_line_priority visible departing lateral_active enabled' blindspot speed =
     (if \<not> visible then 1
      else if departing then 4
      else if \<not> lateral_active \<and> \<not> enabled' then 0
      else if blindspot \<or> speed < 8.94 then 2
      else 6)"

subsection \<open>Well-formed inputs\<close>

text \<open>
  The cruise snapshot handed to \<open>create_acc_control\<close> is absent, or carries the two fields
  the composer reads from it.
\<close>

definition cruise_info_ok :: "signals option \<Rightarrow> bool" where
  "cruise_info_ok ci =
     (case ci of
        None \<Rightarrow> True
      | Some c \<Rightarrow> c ''ACC_ObjDist'' \<noteq> None \<and> c ''ACC_ObjRelSpd'' \<noteq> None)"

section \<open>Properties\<close>

subsection \<open>Bus topology\<close>

lemma CanBus_init_buses:
  "ACAN (CanBus_init HF offset CP lka) =
     (if lka_steering_variant HF CP lka then 0 else 1) + offset"
  "ECAN (CanBus_init HF offset CP lka) =
     (if lka_steering_variant HF CP lka then 1 else 0) + offset"
  "CAM (CanBus_init HF offset CP lka) = 2 + offset"
  by (simp_all add: CanBus_init_def ACAN_def ECAN_def CAM_def Let_def)

text \<open>
  C4: for every harness configuration and every bus offset, the camera bus (ACAN) and the
  ECU bus (ECAN) differ; one of them is \<open>0 + offset\<close> and the other \<open>1 + offset\<close>, the
  camera bus being \<open>0 + offset\<close> exactly when the LKA steering variant is set; the relay
  bus (CAM) is \<open>2 + offset\<close>.
\<close>

theorem CanBus_topology:
  "ACAN (CanBus_init HF offset CP lka) \<noteq> ECAN (CanBus_init HF offset CP lka)
   \<and> (if lka_steering_variant HF CP lka
      then ACAN (CanBus_init HF offset CP lka) = 0 + offset
           \<and> ECAN (CanBus_init HF offset CP lka) = 1 + offset
      else ACAN (CanBus_init HF offset CP lka) = 1 + offset
           \<and> ECAN (CanBus_init HF offset CP lka) = 0 + offset)
   \<and> CAM (CanBus_init HF offset CP lka) = 2 + offset"
  by (simp add: CanBus_init_buses)

theorem CanBus_topology_witness:
  "ACAN (CanBus_init \<lparr>CANFD_LKA_STEERING = 1, CANFD_LKA_STEERING_ALT = 2, CANFD_CAMERA_SCC = 4\<rparr> 4
      (Some \<lparr>flags = 5, openpilotLongitudinalControl = True\<rparr>) None) = 4
   \<and> ECAN (CanBus_init \<lparr>CANFD_LKA_STEERING = 1, CANFD_LKA_STEERING_ALT = 2, CANFD_CAMERA_SCC = 4\<rparr> 4
      (Some \<lparr>flags = 5, openpilotLongitudinalControl = True\<rparr>) None) = 5
   \<and> CAM (CanBus_init \<lparr>CANFD_LKA_STEERING = 1, CANFD_LKA_STEERING_ALT = 2, CANFD_CAMERA_SCC = 4\<rparr> 4
      (Some \<lparr>flags = 5, openpilotLongitudinalControl = True\<rparr>) None) = 6"
  using CanBus_topology [of "\<lparr>CANFD_LKA_STEERING = 1, CANFD_LKA_STEERING_ALT = 2, CANFD_CAMERA_SCC = 4\<rparr>" 4
      "Some \<lparr>flags = 5, openpilotLongitudinalControl = True\<rparr>" None]
  by (simp add: lka_steering_variant_def truthy_def)

subsection \<open>Dictionary comprehension\<close>

lemma dict_comp_lookup:
  "dict_comp ks src acc = Inr m \<Longrightarrow> m k = (if k \<in> set ks then src k else acc k)"
proof (induction ks arbitrary: acc)
  case Nil
  then show ?case by simp
next
  case (Cons s ss)
  then show ?case
    by (cases "src s") (auto split: if_splits)
qed

lemma dict_comp_Inr_iff:
  "(\<exists>m. dict_comp ks src acc = Inr m) \<longleftrightarrow> set ks \<subseteq> dom src"
proof (induction ks arbitrary: acc)
  case Nil
  then show ?case by simp
next
  case (Cons s ss)
  then show ?case
    by (cases "src s") auto
qed

lemma dict_comp_Inl:
  "dict_comp ks src acc = Inl e \<Longrightarrow> \<not> set ks \<subseteq> dom src"
  using dict_comp_Inr_iff [of ks src acc] by auto

subsection \<open>Cruise buttons\<close>

text \<open>
  C10: the cruise-button composer emits one \<open>CRUISE_BUTTONS\<close> frame; for every counter and
  button value it goes to the ECU bus (ECAN) when the LKA steering flag is set in the car's
  flags, and to the relay bus \<open>2 + offset\<close> (CAM) otherwise; the field \<open>SET_ME_1\<close> is
  always 1, and the counter and the button are passed through.
\<close>

theorem create_buttons_routing:
  "msg (create_buttons HF CP (CanBus_init HF' offset CP' lka) cnt btn) = ''CRUISE_BUTTONS''
   \<and> bus (create_buttons HF CP (CanBus_init HF' offset CP' lka) cnt btn) =
       (if truthy (flags CP AND CANFD_LKA_STEERING HF)
        then ECAN (CanBus_init HF' offset CP' lka) else 2 + offset)
   \<and> dat (create_buttons HF CP (CanBus_init HF' offset CP' lka) cnt btn) ''SET_ME_1'' = Some 1
   \<and> dat (create_buttons HF CP (CanBus_init HF' offset CP' lka) cnt btn) ''COUNTER'' = Some cnt
   \<and> dat (create_buttons HF CP (CanBus_init HF' offset CP' lka) cnt btn) ''CRUISE_BUTTONS'' = Some btn"
  by (simp add: create_buttons_def make_can_msg_def Let_def CanBus_init_buses)

theorem create_buttons_routing_witness:
  "bus (create_buttons \<lparr>CANFD_LKA_STEERING = 1, CANFD_LKA_STEERING_ALT = 2, CANFD_CAMERA_SCC = 4\<rparr>
          \<lparr>flags = 4, openpilotLongitudinalControl = True\<rparr>
          (CanBus_init \<lparr>CANFD_LKA_STEERING = 1, CANFD_LKA_STEERING_ALT = 2, CANFD_CAMERA_SCC = 4\<rparr> 4
             (Some \<lparr>flags = 4, openpilotLongitudinalControl = True\<rparr>) None) 3 1) = 6
   \<and> bus (create_buttons \<lparr>CANFD_LKA_STEERING = 1, CANFD_LKA_STEERING_ALT = 2, CANFD_CAMERA_SCC = 4\<rparr>
          \<lparr>flags = 1, openpilotLongitudinalControl = True\<rparr>
          (CanBus_init \<lparr>CANFD_LKA_STEERING = 1, CANFD_LKA_STEERING_ALT = 2, CANFD_CAMERA_SCC = 4\<rparr> 4
             (Some \<lparr>flags = 1, openpilotLongitudinalControl = True\<rparr>) None) 3 1) = 5"
  using create_buttons_routing [of "\<lparr>CANFD_LKA_STEERING = 1, CANFD_LKA_STEERING_ALT = 2, CANFD_CAMERA_SCC = 4\<rparr>"
      "\<lparr>flags = 4, openpilotLongitudinalControl = True\<rparr>"
      "\<lparr>CANFD_LKA_STEERING = 1, CANFD_LKA_STEERING_ALT = 2, CANFD_CAMERA_SCC = 4\<rparr>" 4
      "Some \<lparr>flags = 4, openpilotLongitudinalControl = True\<rparr>" None 3 1]
    create_buttons_routing [of "\<lparr>CANFD_LKA_STEERING = 1, CANFD_LKA_STEERING_ALT = 2, CANFD_CAMERA_SCC = 4\<rparr>"
      "\<lparr>flags = 1, openpilotLongitudinalControl = True\<rparr>"
      "\<lparr>CANFD_LKA_STEERING = 1, CANFD_LKA_STEERING_ALT = 2, CANFD_CAMERA_SCC = 4\<rparr>" 4
      "Some \<lparr>flags = 1, openpilotLongitudinalControl = True\<rparr>" None 3 1]
  by (simp add: truthy_def CanBus_init_buses lka_steering_variant_def)


subsection \<open>Acceleration command\<close>

lemma acc_control_Inl:
  "create_acc_control CAN en al ac st go ss hud ci = Inl e \<Longrightarrow> \<not> cruise_info_ok ci"
  by (auto simp: create_acc_control_def cruise_info_ok_def
      split: option.splits sum.splits)

lemma map_add_outside: "upd k = None \<Longrightarrow> (vs ++ upd) k = vs k"
  by (simp add: map_add_def)

lemma acc_control_dat:
  assumes "create_acc_control CAN en al ac st go ss hud ci = Inr m"
    and "k \<noteq> ''ACC_ObjDist''" and "k \<noteq> ''ACC_ObjRelSpd''"
  shows "dat m k = acc_control_values en al ac st go ss hud k"
proof (cases ci)
  case None
  with assms show ?thesis
    by (auto simp: create_acc_control_def make_can_msg_def map_add_outside)
next
  case (Some c)
  with assms(1) obtain upd
    where u: "dict_comp [''ACC_ObjDist'', ''ACC_ObjRelSpd''] c Map.empty = Inr upd"
      and m: "m = make_can_msg ''SCC_CONTROL'' (ECAN CAN)
                    (acc_control_values en al ac st go ss hud ++ upd)"
    by (auto simp: create_acc_control_def split: sum.splits)
  have "upd k = None"
    using dict_comp_lookup [OF u, of k] assms(2,3) by simp
  then show ?thesis
    by (simp add: m make_can_msg_def map_add_outside)
qed

lemma acc_control_frame:
  assumes "create_acc_control CAN en al ac st go ss hud ci = Inr m"
  shows "msg m = ''SCC_CONTROL''" and "bus m = ECAN CAN"
  using assms
  by (auto simp: create_acc_control_def make_can_msg_def split: sum.splits)

lemma acc_values_accel:
  "acc_control_values en al ac st go ss hud ''aReqRaw'' =
     Some (if \<not> en \<or> go then 0 else ac)"
  "acc_control_values en al ac st go ss hud ''aReqValue'' =
     Some (if \<not> en \<or> go then 0 else np_clip ac (al - 5 / 50) (al + 5 / 50))"
  by (simp_all add: acc_control_values_def Let_def)

lemma acc_values_jerk:
  "acc_control_values en al ac st go ss hud ''JerkLowerLimit'' = Some (if en then 5 else 1)"
  "acc_control_values en al ac st go ss hud ''JerkUpperLimit'' = Some 3"
  by (simp_all add: acc_control_values_def Let_def)

text \<open>
  C5: whenever \<open>enabled\<close> is false or \<open>gas_override\<close> is true, the frame that
  \<open>create_acc_control\<close> produces has \<open>aReqRaw\<close> and \<open>aReqValue\<close> equal to zero, whatever
  the requested acceleration and the previous shaped value are. The composer produces a
  frame for every well-formed cruise snapshot; it raises only when a snapshot is given
  that lacks one of the two fields read from it.
\<close>

theorem acc_control_forced_zero:
  assumes "\<not> en \<or> go"
  shows "case create_acc_control CAN en al ac st go ss hud ci of
           Inr m \<Rightarrow> dat m ''aReqRaw'' = Some 0 \<and> dat m ''aReqValue'' = Some 0
         | Inl e \<Rightarrow> \<not> cruise_info_ok ci"
proof (cases "create_acc_control CAN en al ac st go ss hud ci")
  case (Inl e)
  then show ?thesis by (simp add: acc_control_Inl)
next
  case (Inr m)
  have "dat m ''aReqRaw'' = Some 0" "dat m ''aReqValue'' = Some 0"
    using assms by (simp_all add: acc_control_dat [OF Inr] acc_values_accel)
  with Inr show ?thesis by simp
qed

theorem acc_control_forced_zero_witness:
  "frame_signal (create_acc_control
      (CanBus_init \<lparr>CANFD_LKA_STEERING = 1, CANFD_LKA_STEERING_ALT = 2, CANFD_CAMERA_SCC = 4\<rparr> 0 None None)
      False 0 2 False False 30
      \<lparr>leftLaneVisible = True, rightLaneVisible = True, leftLaneDepart = False,
        rightLaneDepart = False, leadVisible = True, leadDistanceBars = 2\<rparr> None) ''aReqRaw'' = Some 0
   \<and> frame_signal (create_acc_control
      (CanBus_init \<lparr>CANFD_LKA_STEERING = 1, CANFD_LKA_STEERING_ALT = 2, CANFD_CAMERA_SCC = 4\<rparr> 0 None None)
      False 0 2 False False 30
      \<lparr>leftLaneVisible = True, rightLaneVisible = True, leftLaneDepart = False,
        rightLaneDepart = False, leadVisible = True, leadDistanceBars = 2\<rparr> None) ''aReqValue'' = Some 0"
  using acc_control_forced_zero [where en = False and go = False and al = 0 and ac = 2
      and st = False and ss = 30 and ci = None
      and CAN = "CanBus_init \<lparr>CANFD_LKA_STEERING = 1, CANFD_LKA_STEERING_ALT = 2, CANFD_CAMERA_SCC = 4\<rparr> 0 None None"
      and hud = "\<lparr>leftLaneVisible = True, rightLaneVisible = True, leftLaneDepart = False,
        rightLaneDepart = False, leadVisible = True, leadDistanceBars = 2\<rparr>"]
  by (simp add: frame_signal_def create_acc_control_def)




text \<open>
  C9, as the code has it: \<open>JerkUpperLimit\<close> is the constant 3.0 for every input, while
  \<open>JerkLowerLimit\<close> is 5 when \<open>enabled\<close> is true and 1 when it is false; neither depends
  on \<open>gas_override\<close> or on any other input. The two fields are therefore not both
  independent of the input state: the lower limit is 5 for an enabled and 1 for a
  disabled command.
\<close>

theorem acc_control_jerk_limits:
  "case create_acc_control CAN en al ac st go ss hud ci of
     Inr m \<Rightarrow> dat m ''JerkUpperLimit'' = Some 3
            \<and> dat m ''JerkLowerLimit'' = Some (if en then 5 else 1)
   | Inl e \<Rightarrow> \<not> cruise_info_ok ci"
proof (cases "create_acc_control CAN en al ac st go ss hud ci")
  case (Inl e)
  then show ?thesis by (simp add: acc_control_Inl)
next
  case (Inr m)
  then show ?thesis
    by (simp add: acc_control_dat [OF Inr] acc_values_jerk)
qed


theorem acc_control_jerk_limits_witness:
  "frame_signal (create_acc_control
      (CanBus_init \<lparr>CANFD_LKA_STEERING = 1, CANFD_LKA_STEERING_ALT = 2, CANFD_CAMERA_SCC = 4\<rparr> 0 None None)
      True 0 2 False True 30
      \<lparr>leftLaneVisible = True, rightLaneVisible = True, leftLaneDepart = False,
        rightLaneDepart = False, leadVisible = True, leadDistanceBars = 2\<rparr>
      (Some [''ACC_ObjDist'' \<mapsto> 12, ''ACC_ObjRelSpd'' \<mapsto> 3])) ''JerkUpperLimit'' = Some 3
   \<and> frame_signal (create_acc_control
      (CanBus_init \<lparr>CANFD_LKA_STEERING = 1, CANFD_LKA_STEERING_ALT = 2, CANFD_CAMERA_SCC = 4\<rparr> 0 None None)
      True 0 2 False True 30
      \<lparr>leftLaneVisible = True, rightLaneVisible = True, leftLaneDepart = False,
        rightLaneDepart = False, leadVisible = True, leadDistanceBars = 2\<rparr>
      (Some [''ACC_ObjDist'' \<mapsto> 12, ''ACC_ObjRelSpd'' \<mapsto> 3])) ''JerkLowerLimit'' = Some 5"
  using acc_control_jerk_limits [where en = True and go = True and al = 0 and ac = 2
      and st = False and ss = 30 and ci = "Some [''ACC_ObjDist'' \<mapsto> 12, ''ACC_ObjRelSpd'' \<mapsto> 3]"
      and CAN = "CanBus_init \<lparr>CANFD_LKA_STEERING = 1, CANFD_LKA_STEERING_ALT = 2, CANFD_CAMERA_SCC = 4\<rparr> 0 None None"
      and hud = "\<lparr>leftLaneVisible = True, rightLaneVisible = True, leftLaneDepart = False,
        rightLaneDepart = False, leadVisible = True, leadDistanceBars = 2\<rparr>"]
  by (simp add: frame_signal_def create_acc_control_def)

text \<open>
  The lower limit differs between an enabled and a disabled command with otherwise equal
  inputs.
\<close>

theorem acc_control_jerk_counterexample:
  "frame_signal (create_acc_control
      (CanBus_init \<lparr>CANFD_LKA_STEERING = 1, CANFD_LKA_STEERING_ALT = 2, CANFD_CAMERA_SCC = 4\<rparr> 0 None None)
      True 0 0 False False 30
      \<lparr>leftLaneVisible = True, rightLaneVisible = True, leftLaneDepart = False,
        rightLaneDepart = False, leadVisible = True, leadDistanceBars = 2\<rparr> None) ''JerkLowerLimit'' = Some 5
   \<and> frame_signal (create_acc_control
      (CanBus_init \<lparr>CANFD_LKA_STEERING = 1, CANFD_LKA_STEERING_ALT = 2, CANFD_CAMERA_SCC = 4\<rparr> 0 None None)
      False 0 0 False False 30
      \<lparr>leftLaneVisible = True, rightLaneVisible = True, leftLaneDepart = False,
        rightLaneDepart = False, leadVisible = True, leadDistanceBars = 2\<rparr> None) ''JerkLowerLimit'' = Some 1"
  by (simp add: frame_signal_def create_acc_control_def make_can_msg_def map_add_outside
      acc_values_jerk)

subsection \<open>Cruise cancel command\<close>

lemma acc_cancel_fields_facts:
  "''ACCMode'' \<in> set (acc_cancel_fields c)"
  "''aReqRaw'' \<notin> set (acc_cancel_fields c)"
  "''aReqValue'' \<notin> set (acc_cancel_fields c)"
  by (simp_all add: acc_cancel_fields_def)

lemma acc_cancel_dat:
  assumes "create_acc_cancel HF CP CAN ci = Inr m"
  shows "dat m k =
    (if k = ''aReqValue'' \<or> k = ''aReqRaw'' then Some 0
     else if k = ''ACCMode'' then Some 4
     else if k \<in> set (acc_cancel_fields (truthy (flags CP AND CANFD_CAMERA_SCC HF))) then ci k
     else None)"
proof -
  from assms obtain vs
    where v: "dict_comp (acc_cancel_fields (truthy (flags CP AND CANFD_CAMERA_SCC HF))) ci Map.empty
               = Inr vs"
      and m: "m = make_can_msg ''SCC_CONTROL'' (ECAN CAN)
                    (vs(''ACCMode'' \<mapsto> 4, ''aReqRaw'' \<mapsto> 0, ''aReqValue'' \<mapsto> 0))"
    by (auto simp: create_acc_cancel_def split: sum.splits)
  show ?thesis
    using dict_comp_lookup [OF v, of k] by (simp add: m make_can_msg_def)
qed

lemma acc_cancel_frame:
  assumes "create_acc_cancel HF CP CAN ci = Inr m"
  shows "msg m = ''SCC_CONTROL''" and "bus m = ECAN CAN"
    and "set (acc_cancel_fields (truthy (flags CP AND CANFD_CAMERA_SCC HF))) \<subseteq> dom ci"
proof -
  from assms obtain vs
    where v: "dict_comp (acc_cancel_fields (truthy (flags CP AND CANFD_CAMERA_SCC HF))) ci Map.empty
               = Inr vs"
      and m: "m = make_can_msg ''SCC_CONTROL'' (ECAN CAN)
                    (vs(''ACCMode'' \<mapsto> 4, ''aReqRaw'' \<mapsto> 0, ''aReqValue'' \<mapsto> 0))"
    by (auto simp: create_acc_cancel_def split: sum.splits)
  show "msg m = ''SCC_CONTROL''" "bus m = ECAN CAN"
    by (simp_all add: m make_can_msg_def)
  show "set (acc_cancel_fields (truthy (flags CP AND CANFD_CAMERA_SCC HF))) \<subseteq> dom ci"
    using dict_comp_Inr_iff [of _ ci Map.empty] v by blast
qed

lemma acc_cancel_Inl:
  assumes "create_acc_cancel HF CP CAN ci = Inl e"
  shows "\<not> set (acc_cancel_fields (truthy (flags CP AND CANFD_CAMERA_SCC HF))) \<subseteq> dom ci"
proof -
  from assms
  have "dict_comp (acc_cancel_fields (truthy (flags CP AND CANFD_CAMERA_SCC HF))) ci Map.empty = Inl e"
    by (auto simp: create_acc_cancel_def split: sum.splits)
  then show ?thesis by (rule dict_comp_Inl)
qed

lemma acc_cancel_fields_lengths:
  "length (acc_cancel_fields True) = 10" "length (acc_cancel_fields False) = 5"
  by (simp_all add: acc_cancel_fields_def)

lemma acc_cancel_fields_distinct:
  "distinct (acc_cancel_fields True)" "distinct (acc_cancel_fields False)"
  by (simp_all add: acc_cancel_fields_def)

lemma acc_cancel_fields_subset:
  "set (acc_cancel_fields False) \<subseteq> set (acc_cancel_fields True)"
  by (simp add: acc_cancel_fields_def)

text \<open>
  C2, as the code has it: the cancel composer copies a fixed list of fields from the
  cruise snapshot, then sets \<open>ACCMode\<close> to 4 and both acceleration fields to 0, and emits
  the frame on the ECU bus. The list used when the camera-SCC flag is set has 10 distinct
  fields, the list of the standalone-radar variant has 5, all of them among the 10: the
  camera-based list is the longer one, not the shorter. The produced frame holds the listed
  fields with the snapshot's values (\<open>ACCMode\<close> apart), the two acceleration fields, and
  nothing else; the composer raises only when the snapshot lacks a listed field.
\<close>

theorem acc_cancel_subsets:
  "length (acc_cancel_fields True) = 10 \<and> length (acc_cancel_fields False) = 5
   \<and> distinct (acc_cancel_fields True) \<and> distinct (acc_cancel_fields False)
   \<and> set (acc_cancel_fields False) \<subseteq> set (acc_cancel_fields True)
   \<and> (case create_acc_cancel HF CP CAN ci of
        Inr m \<Rightarrow>
          msg m = ''SCC_CONTROL'' \<and> bus m = ECAN CAN
          \<and> dat m ''ACCMode'' = Some 4 \<and> dat m ''aReqRaw'' = Some 0 \<and> dat m ''aReqValue'' = Some 0
          \<and> (\<forall>k \<in> set (acc_cancel_fields (truthy (flags CP AND CANFD_CAMERA_SCC HF))).
                k \<noteq> ''ACCMode'' \<longrightarrow> dat m k = ci k \<and> ci k \<noteq> None)
          \<and> (\<forall>k. k \<notin> set (acc_cancel_fields (truthy (flags CP AND CANFD_CAMERA_SCC HF)))
                \<longrightarrow> k \<noteq> ''aReqRaw'' \<longrightarrow> k \<noteq> ''aReqValue'' \<longrightarrow> dat m k = None)
      | Inl e \<Rightarrow>
          \<not> set (acc_cancel_fields (truthy (flags CP AND CANFD_CAMERA_SCC HF))) \<subseteq> dom ci)"
proof -
  let ?fs = "acc_cancel_fields (truthy (flags CP AND CANFD_CAMERA_SCC HF))"
  have res: "case create_acc_cancel HF CP CAN ci of
        Inr m \<Rightarrow>
          msg m = ''SCC_CONTROL'' \<and> bus m = ECAN CAN
          \<and> dat m ''ACCMode'' = Some 4 \<and> dat m ''aReqRaw'' = Some 0 \<and> dat m ''aReqValue'' = Some 0
          \<and> (\<forall>k \<in> set ?fs. k \<noteq> ''ACCMode'' \<longrightarrow> dat m k = ci k \<and> ci k \<noteq> None)
          \<and> (\<forall>k. k \<notin> set ?fs \<longrightarrow> k \<noteq> ''aReqRaw'' \<longrightarrow> k \<noteq> ''aReqValue'' \<longrightarrow> dat m k = None)
      | Inl e \<Rightarrow> \<not> set ?fs \<subseteq> dom ci"
  proof (cases "create_acc_cancel HF CP CAN ci")
    case (Inl e)
    with acc_cancel_Inl [OF Inl] show ?thesis by simp
  next
    case (Inr m)
    note d = acc_cancel_dat [OF Inr]
    have fixed: "dat m ''ACCMode'' = Some 4" "dat m ''aReqRaw'' = Some 0"
      "dat m ''aReqValue'' = Some 0"
      by (simp_all add: d)
    have copied: "\<forall>k \<in> set ?fs. k \<noteq> ''ACCMode'' \<longrightarrow> dat m k = ci k \<and> ci k \<noteq> None"
    proof (intro ballI impI)
      fix k assume k: "k \<in> set ?fs" "k \<noteq> ''ACCMode''"
      then have "k \<noteq> ''aReqRaw''" "k \<noteq> ''aReqValue''"
        using acc_cancel_fields_facts(2,3) by blast+
      with k have "dat m k = ci k" by (simp add: d)
      moreover have "ci k \<noteq> None"
        using acc_cancel_frame(3) [OF Inr] k(1) by blast
      ultimately show "dat m k = ci k \<and> ci k \<noteq> None" by simp
    qed
    have rest: "\<forall>k. k \<notin> set ?fs \<longrightarrow> k \<noteq> ''aReqRaw'' \<longrightarrow> k \<noteq> ''aReqValue'' \<longrightarrow> dat m k = None"
    proof (intro allI impI)
      fix k assume k: "k \<notin> set ?fs" "k \<noteq> ''aReqRaw''" "k \<noteq> ''aReqValue''"
      then have "k \<noteq> ''ACCMode''"
        using acc_cancel_fields_facts(1) by blast
      with k show "dat m k = None" by (simp add: d)
    qed
    from fixed copied rest acc_cancel_frame(1,2) [OF Inr] show ?thesis
      unfolding Inr sum.case by (intro conjI)
  qed
  show ?thesis
    by (intro conjI acc_cancel_fields_lengths acc_cancel_fields_distinct
        acc_cancel_fields_subset res)
qed

theorem acc_cancel_subsets_witness:
  "frame_signal (create_acc_cancel
      \<lparr>CANFD_LKA_STEERING = 1, CANFD_LKA_STEERING_ALT = 2, CANFD_CAMERA_SCC = 4\<rparr>
      \<lparr>flags = 0, openpilotLongitudinalControl = True\<rparr>
      (CanBus_init \<lparr>CANFD_LKA_STEERING = 1, CANFD_LKA_STEERING_ALT = 2, CANFD_CAMERA_SCC = 4\<rparr> 0 None None)
      [''COUNTER'' \<mapsto> 7, ''CHECKSUM'' \<mapsto> 33, ''ACCMode'' \<mapsto> 1, ''VSetDis'' \<mapsto> 60,
       ''CRUISE_STANDSTILL'' \<mapsto> 0, ''DISTANCE_SETTING'' \<mapsto> 2]) ''VSetDis'' = Some 60
   \<and> frame_signal (create_acc_cancel
      \<lparr>CANFD_LKA_STEERING = 1, CANFD_LKA_STEERING_ALT = 2, CANFD_CAMERA_SCC = 4\<rparr>
      \<lparr>flags = 0, openpilotLongitudinalControl = True\<rparr>
      (CanBus_init \<lparr>CANFD_LKA_STEERING = 1, CANFD_LKA_STEERING_ALT = 2, CANFD_CAMERA_SCC = 4\<rparr> 0 None None)
      [''COUNTER'' \<mapsto> 7, ''CHECKSUM'' \<mapsto> 33, ''ACCMode'' \<mapsto> 1, ''VSetDis'' \<mapsto> 60,
       ''CRUISE_STANDSTILL'' \<mapsto> 0, ''DISTANCE_SETTING'' \<mapsto> 2]) ''DISTANCE_SETTING'' = None
   \<and> frame_signal (create_acc_cancel
      \<lparr>CANFD_LKA_STEERING = 1, CANFD_LKA_STEERING_ALT = 2, CANFD_CAMERA_SCC = 4\<rparr>
      \<lparr>flags = 0, openpilotLongitudinalControl = True\<rparr>
      (CanBus_init \<lparr>CANFD_LKA_STEERING = 1, CANFD_LKA_STEERING_ALT = 2, CANFD_CAMERA_SCC = 4\<rparr> 0 None None)
      [''COUNTER'' \<mapsto> 7, ''CHECKSUM'' \<mapsto> 33, ''ACCMode'' \<mapsto> 1, ''VSetDis'' \<mapsto> 60,
       ''CRUISE_STANDSTILL'' \<mapsto> 0, ''DISTANCE_SETTING'' \<mapsto> 2]) ''ACCMode'' = Some 4"
  using acc_cancel_subsets [where
      HF = "\<lparr>CANFD_LKA_STEERING = 1, CANFD_LKA_STEERING_ALT = 2, CANFD_CAMERA_SCC = 4\<rparr>"
      and CP = "\<lparr>flags = 0, openpilotLongitudinalControl = True\<rparr>"
      and CAN = "CanBus_init \<lparr>CANFD_LKA_STEERING = 1, CANFD_LKA_STEERING_ALT = 2, CANFD_CAMERA_SCC = 4\<rparr> 0 None None"
      and ci = "[''COUNTER'' \<mapsto> 7, ''CHECKSUM'' \<mapsto> 33, ''ACCMode'' \<mapsto> 1, ''VSetDis'' \<mapsto> 60,
       ''CRUISE_STANDSTILL'' \<mapsto> 0, ''DISTANCE_SETTING'' \<mapsto> 2]"]
  by (simp add: frame_signal_def create_acc_cancel_def acc_cancel_fields_def truthy_def
      make_can_msg_def)

text \<open>The camera-based field list is not shorter than the standalone-radar list.\<close>

theorem acc_cancel_fields_counterexample:
  "\<not> length (acc_cancel_fields True) < length (acc_cancel_fields False)"
  by (simp add: acc_cancel_fields_lengths)

subsection \<open>Camera-message suppressor\<close>

lemma byte_name_not_fixed:
  "byte_name i \<noteq> ''COUNTER''" "byte_name i \<noteq> ''SET_ME_0''" "byte_name i \<noteq> ''SET_ME_0_2''"
  "byte_name i \<noteq> ''LEFT_LANE_LINE''" "byte_name i \<noteq> ''RIGHT_LANE_LINE''"
  by (simp_all add: byte_name_def)

lemma byte7_not_copied:
  "byte_name 7 \<notin> set (map byte_name (filter (\<lambda>i. i \<noteq> 7) [3..<32]))"
  "byte_name 7 \<notin> set (map byte_name (filter (\<lambda>i. i \<noteq> 7) [3..<24]))"
  by code_simp+

lemma suppress_lfa_Inr:
  assumes "create_suppress_lfa CAN src alt = Inr m"
  obtains vs c where
    "dict_comp (map byte_name (filter (\<lambda>i. i \<noteq> 7) [3..<(if alt then 32 else 24)])) src Map.empty
       = Inr vs"
    and "src ''COUNTER'' = Some c"
    and "m = make_can_msg (if alt then ''CAM_0x362'' else ''CAM_0x2a4'') (ACAN CAN)
               (vs(''COUNTER'' \<mapsto> c, ''SET_ME_0'' \<mapsto> 0, ''SET_ME_0_2'' \<mapsto> 0,
                   ''LEFT_LANE_LINE'' \<mapsto> 0, ''RIGHT_LANE_LINE'' \<mapsto> 0))"
  using assms
  by (auto simp: create_suppress_lfa_def Let_def split: sum.splits option.splits if_splits)

lemma suppress_lfa_Inl:
  assumes "create_suppress_lfa CAN src alt = Inl e"
  shows "\<not> insert ''COUNTER'' (byte_name ` ({3..<(if alt then 32 else 24)} - {7})) \<subseteq> dom src"
proof
  let ?ks = "map byte_name (filter (\<lambda>i. i \<noteq> 7) [3..<(if alt then 32 else 24)])"
  assume a: "insert ''COUNTER'' (byte_name ` ({3..<(if alt then 32 else 24)} - {7})) \<subseteq> dom src"
  have "set ?ks = byte_name ` ({3..<(if alt then 32 else 24)} - {7})"
    by auto
  with a have "set ?ks \<subseteq> dom src" by auto
  then obtain vs where vs: "dict_comp ?ks src Map.empty = Inr vs"
    using dict_comp_Inr_iff [of ?ks src Map.empty] by blast
  from a obtain c where c: "src ''COUNTER'' = Some c" by auto
  from assms vs c show False
    by (auto simp: create_suppress_lfa_def Let_def split: if_splits)
qed

lemma byte_names_24:
  "map byte_name (filter (\<lambda>i. i \<noteq> 7) [3..<24]) =
      [''BYTE3'', ''BYTE4'', ''BYTE5'', ''BYTE6'', ''BYTE8'', ''BYTE9'', ''BYTE10'', ''BYTE11'',
       ''BYTE12'', ''BYTE13'', ''BYTE14'', ''BYTE15'', ''BYTE16'', ''BYTE17'', ''BYTE18'',
       ''BYTE19'', ''BYTE20'', ''BYTE21'', ''BYTE22'', ''BYTE23'']"
  by code_simp

lemma byte_keys_set:
  "set (map byte_name (filter (\<lambda>i. i \<noteq> 7) [a..<b])) = byte_name ` ({a..<b} - {7})"
  by auto

lemma byte_names_some: "byte_name 3 = ''BYTE3''" "byte_name 7 = ''BYTE7''" "byte_name 23 = ''BYTE23''"
  by code_simp+

text \<open>
  C6: for every snapshot and both values of \<open>lka_steering_alt\<close>, the frame that
  \<open>create_suppress_lfa\<close> produces is emitted on the camera bus (ACAN); every field
  \<open>BYTE{i}\<close> with \<open>i\<close> in the variant's index range (3 up to 24, or up to 32 for the
  alternate variant) other than 7 equals the snapshot's field, which differs in name from
  the four overridden fields; \<open>BYTE7\<close> is absent; \<open>COUNTER\<close> equals the snapshot's counter;
  and \<open>SET_ME_0\<close>, \<open>SET_ME_0_2\<close>, \<open>LEFT_LANE_LINE\<close> and \<open>RIGHT_LANE_LINE\<close> are zero. The
  composer raises only when the snapshot lacks one of the fields it reads.
\<close>

theorem suppress_lfa_frame:
  "case create_suppress_lfa CAN src alt of
     Inr m \<Rightarrow>
       msg m = (if alt then ''CAM_0x362'' else ''CAM_0x2a4'') \<and> bus m = ACAN CAN
       \<and> (\<forall>i \<in> {3..<(if alt then 32 else 24)}. i \<noteq> 7 \<longrightarrow>
             dat m (byte_name i) = src (byte_name i) \<and> src (byte_name i) \<noteq> None)
       \<and> dat m (byte_name 7) = None
       \<and> dat m ''COUNTER'' = src ''COUNTER'' \<and> src ''COUNTER'' \<noteq> None
       \<and> dat m ''SET_ME_0'' = Some 0 \<and> dat m ''SET_ME_0_2'' = Some 0
       \<and> dat m ''LEFT_LANE_LINE'' = Some 0 \<and> dat m ''RIGHT_LANE_LINE'' = Some 0
   | Inl e \<Rightarrow>
       \<not> insert ''COUNTER'' (byte_name ` ({3..<(if alt then 32 else 24)} - {7})) \<subseteq> dom src"
proof (cases "create_suppress_lfa CAN src alt")
  case (Inl e)
  with suppress_lfa_Inl [OF Inl] show ?thesis by simp
next
  case (Inr m)
  let ?ks = "map byte_name (filter (\<lambda>i. i \<noteq> 7) [3..<(if alt then 32 else 24)])"
  from Inr obtain vs c
    where vs: "dict_comp ?ks src Map.empty = Inr vs"
      and c: "src ''COUNTER'' = Some c"
      and m: "m = make_can_msg (if alt then ''CAM_0x362'' else ''CAM_0x2a4'') (ACAN CAN)
               (vs(''COUNTER'' \<mapsto> c, ''SET_ME_0'' \<mapsto> 0, ''SET_ME_0_2'' \<mapsto> 0,
                   ''LEFT_LANE_LINE'' \<mapsto> 0, ''RIGHT_LANE_LINE'' \<mapsto> 0))"
    by (rule suppress_lfa_Inr)
  have dom: "set ?ks \<subseteq> dom src"
    using dict_comp_Inr_iff [of ?ks src Map.empty] vs by blast
  have byte: "dat m (byte_name i) = vs (byte_name i)" for i :: nat
    by (simp add: m make_can_msg_def byte_name_not_fixed)
  have frame: "msg m = (if alt then ''CAM_0x362'' else ''CAM_0x2a4'')" "bus m = ACAN CAN"
    by (simp_all add: m make_can_msg_def)
  have copied: "\<forall>i \<in> {3..<(if alt then 32 else 24)}. i \<noteq> 7 \<longrightarrow>
             dat m (byte_name i) = src (byte_name i) \<and> src (byte_name i) \<noteq> None"
  proof (intro ballI impI)
    fix i :: nat assume i: "i \<in> {3..<(if alt then 32 else 24)}" "i \<noteq> 7"
    then have mem: "byte_name i \<in> set ?ks" by auto
    then have "vs (byte_name i) = src (byte_name i)"
      using dict_comp_lookup [OF vs, of "byte_name i"] by simp
    moreover from mem dom have "src (byte_name i) \<noteq> None" by blast
    ultimately show "dat m (byte_name i) = src (byte_name i) \<and> src (byte_name i) \<noteq> None"
      by (simp add: byte)
  qed
  have "byte_name 7 \<notin> set ?ks"
    using byte7_not_copied by (cases alt) simp_all
  then have seven: "dat m (byte_name 7) = None"
    using dict_comp_lookup [OF vs, of "byte_name 7"] by (simp add: byte)
  have counter: "dat m ''COUNTER'' = src ''COUNTER''" "src ''COUNTER'' \<noteq> None"
    by (simp_all add: m make_can_msg_def c)
  have zero: "dat m ''SET_ME_0'' = Some 0" "dat m ''SET_ME_0_2'' = Some 0"
    "dat m ''LEFT_LANE_LINE'' = Some 0" "dat m ''RIGHT_LANE_LINE'' = Some 0"
    by (simp_all add: m make_can_msg_def)
  from frame copied seven counter zero show ?thesis
    unfolding Inr sum.case by (intro conjI)
qed

theorem suppress_lfa_frame_witness:
  "map (frame_signal (create_suppress_lfa
       (CanBus_init \<lparr>CANFD_LKA_STEERING = 1, CANFD_LKA_STEERING_ALT = 2, CANFD_CAMERA_SCC = 4\<rparr> 0
          None (Some True))
       [''BYTE3'' \<mapsto> 103, ''BYTE4'' \<mapsto> 104, ''BYTE5'' \<mapsto> 105, ''BYTE6''
        \<mapsto> 106, ''BYTE7'' \<mapsto> 107, ''BYTE8'' \<mapsto> 108, ''BYTE9'' \<mapsto> 109,
        ''BYTE10'' \<mapsto> 110, ''BYTE11'' \<mapsto> 111, ''BYTE12'' \<mapsto> 112, ''BYTE13''
        \<mapsto> 113, ''BYTE14'' \<mapsto> 114, ''BYTE15'' \<mapsto> 115, ''BYTE16'' \<mapsto>
        116, ''BYTE17'' \<mapsto> 117, ''BYTE18'' \<mapsto> 118, ''BYTE19'' \<mapsto> 119,
        ''BYTE20'' \<mapsto> 120, ''BYTE21'' \<mapsto> 121, ''BYTE22'' \<mapsto> 122, ''BYTE23''
        \<mapsto> 123, ''COUNTER'' \<mapsto> 9, ''LEFT_LANE_LINE'' \<mapsto> 2]
       False))
     [''BYTE3'', ''BYTE7'', ''BYTE23'', ''COUNTER'', ''LEFT_LANE_LINE'']
   = [Some 103, None, Some 123, Some 9, Some 0]"
proof -
  let ?snap = "[''BYTE3'' \<mapsto> 103, ''BYTE4'' \<mapsto> 104, ''BYTE5'' \<mapsto> 105, ''BYTE6''
        \<mapsto> 106, ''BYTE7'' \<mapsto> 107, ''BYTE8'' \<mapsto> 108, ''BYTE9'' \<mapsto> 109,
        ''BYTE10'' \<mapsto> 110, ''BYTE11'' \<mapsto> 111, ''BYTE12'' \<mapsto> 112, ''BYTE13''
        \<mapsto> 113, ''BYTE14'' \<mapsto> 114, ''BYTE15'' \<mapsto> 115, ''BYTE16'' \<mapsto>
        116, ''BYTE17'' \<mapsto> 117, ''BYTE18'' \<mapsto> 118, ''BYTE19'' \<mapsto> 119,
        ''BYTE20'' \<mapsto> 120, ''BYTE21'' \<mapsto> 121, ''BYTE22'' \<mapsto> 122, ''BYTE23''
        \<mapsto> 123, ''COUNTER'' \<mapsto> 9, ''LEFT_LANE_LINE'' \<mapsto> 2] :: signals"
  let ?CAN = "CanBus_init \<lparr>CANFD_LKA_STEERING = 1, CANFD_LKA_STEERING_ALT = 2, CANFD_CAMERA_SCC = 4\<rparr> 0
          None (Some True)"
  have "byte_name ` ({3..<24} - {7}) = set (map byte_name (filter (\<lambda>i. i \<noteq> 7) [3..<24]))"
    by (rule byte_keys_set [symmetric])
  then have ok: "insert ''COUNTER'' (byte_name ` ({3..<24} - {7})) \<subseteq> dom ?snap"
    unfolding byte_names_24 by simp
  have snap: "?snap ''BYTE3'' = Some 103" "?snap ''BYTE23'' = Some 123" "?snap ''COUNTER'' = Some 9"
    by simp_all
  from suppress_lfa_frame [where CAN = ?CAN and src = ?snap and alt = False] ok
  obtain m where r: "create_suppress_lfa ?CAN ?snap False = Inr m"
    and b: "\<forall>i \<in> {3..<24}. i \<noteq> 7 \<longrightarrow> dat m (byte_name i) = ?snap (byte_name i)"
    and z: "dat m (byte_name 7) = None" "dat m ''COUNTER'' = ?snap ''COUNTER''"
      "dat m ''LEFT_LANE_LINE'' = Some 0"
    by (cases "create_suppress_lfa ?CAN ?snap False") (simp_all del: fun_upd_apply)
  from b have "dat m (byte_name 3) = ?snap (byte_name 3)" "dat m (byte_name 23) = ?snap (byte_name 23)"
    by simp_all
  with z snap show ?thesis
    unfolding r by (simp add: frame_signal_def byte_names_some del: fun_upd_apply)
qed

subsection \<open>Keep-alive cadence\<close>

lemma count_frames_append:
  "count_frames n b (xs @ ys) = count_frames n b xs + count_frames n b ys"
  by (simp add: count_frames_def)

lemma count_frames_run:
  "count_frames n b (adrv_run CAN fs) =
     sum_list (map (\<lambda>f. count_frames n b (create_adrv_messages CAN f)) fs)"
  by (induction fs) (simp_all add: adrv_run_def count_frames_def)

lemma length_run:
  "length (adrv_run CAN fs) = sum_list (map (\<lambda>f. length (create_adrv_messages CAN f)) fs)"
  by (induction fs) (simp_all add: adrv_run_def)

lemma count_adrv_cycle:
  "count_frames ''ADRV_0x51'' (ACAN CAN) (create_adrv_messages CAN f) = 1"
  "count_frames ''ADRV_0x160'' (ECAN CAN) (create_adrv_messages CAN f) = (if f mod 2 = 0 then 1 else 0)"
  "count_frames ''ADRV_0x1ea'' (ECAN CAN) (create_adrv_messages CAN f) = (if f mod 5 = 0 then 1 else 0)"
  "count_frames ''ADRV_0x200'' (ECAN CAN) (create_adrv_messages CAN f) = (if f mod 5 = 0 then 1 else 0)"
  "count_frames ''ADRV_0x345'' (ECAN CAN) (create_adrv_messages CAN f) = (if f mod 20 = 0 then 1 else 0)"
  "count_frames ''ADRV_0x1da'' (ECAN CAN) (create_adrv_messages CAN f) = (if f mod 100 = 0 then 1 else 0)"
  by (simp_all add: count_frames_def create_adrv_messages_def create_fca_warning_light_def
      make_can_msg_def)

lemma length_adrv_cycle:
  "length (create_adrv_messages CAN f) =
     1 + (if f mod 2 = 0 then 1 else 0) + (if f mod 5 = 0 then 2 else 0)
       + (if f mod 20 = 0 then 1 else 0) + (if f mod 100 = 0 then 1 else 0)"
  by (simp add: create_adrv_messages_def create_fca_warning_light_def)

lemma cadence_sums:
  "sum_list (map (\<lambda>f::int. 1::nat) [0..99]) = 100"
  "sum_list (map (\<lambda>f::int. if f mod 2 = 0 then 1 else 0::nat) [0..99]) = 50"
  "sum_list (map (\<lambda>f::int. if f mod 5 = 0 then 1 else 0::nat) [0..99]) = 20"
  "sum_list (map (\<lambda>f::int. if f mod 20 = 0 then 1 else 0::nat) [0..99]) = 5"
  "sum_list (map (\<lambda>f::int. if f mod 100 = 0 then 1 else 0::nat) [0..99]) = 1"
  by code_simp+

lemma cadence_total:
  "sum_list (map (\<lambda>f::int. 1 + (if f mod 2 = 0 then 1 else 0) + (if f mod 5 = 0 then 2 else 0)
       + (if f mod 20 = 0 then 1 else 0) + (if f mod 100 = 0 then 1 else 0) :: nat) [0..99]) = 196"
  by code_simp

text \<open>
  C8: over the 100 consecutive counter values 0 to 99, \<open>create_adrv_messages\<close> emits the
  keep-alive frame \<open>ADRV_0x51\<close> on the camera bus 100 times, the fault-light frame
  \<open>ADRV_0x160\<close> (present exactly when the counter is even) 50 times, each of the two
  frames \<open>ADRV_0x1ea\<close> and \<open>ADRV_0x200\<close> of the multiples of 5 20 times, the frame
  \<open>ADRV_0x345\<close> of the multiples of 20 5 times and the frame \<open>ADRV_0x1da\<close> of the
  multiples of 100 once, all but the first on the ECU bus; these are all the 196 frames
  of the run.
\<close>

theorem adrv_cadence_counts:
  "count_frames ''ADRV_0x51'' (ACAN CAN) (adrv_run CAN [0..99]) = 100
   \<and> count_frames ''ADRV_0x160'' (ECAN CAN) (adrv_run CAN [0..99]) = 50
   \<and> count_frames ''ADRV_0x1ea'' (ECAN CAN) (adrv_run CAN [0..99]) = 20
   \<and> count_frames ''ADRV_0x200'' (ECAN CAN) (adrv_run CAN [0..99]) = 20
   \<and> count_frames ''ADRV_0x345'' (ECAN CAN) (adrv_run CAN [0..99]) = 5
   \<and> count_frames ''ADRV_0x1da'' (ECAN CAN) (adrv_run CAN [0..99]) = 1
   \<and> length (adrv_run CAN [0..99]) = 196"
  by (simp only: count_frames_run length_run count_adrv_cycle length_adrv_cycle cadence_sums
      cadence_total simp_thms)

theorem adrv_cadence_counts_witness:
  "count_frames ''ADRV_0x51'' 1
      (adrv_run (CanBus_init \<lparr>CANFD_LKA_STEERING = 1, CANFD_LKA_STEERING_ALT = 2, CANFD_CAMERA_SCC = 4\<rparr> 0
                   None None) [0..99]) = 100
   \<and> count_frames ''ADRV_0x1da'' 0
      (adrv_run (CanBus_init \<lparr>CANFD_LKA_STEERING = 1, CANFD_LKA_STEERING_ALT = 2, CANFD_CAMERA_SCC = 4\<rparr> 0
                   None None) [0..99]) = 1"
proof -
  let ?CAN = "CanBus_init \<lparr>CANFD_LKA_STEERING = 1, CANFD_LKA_STEERING_ALT = 2, CANFD_CAMERA_SCC = 4\<rparr> 0
                None None"
  have "ACAN ?CAN = 1" "ECAN ?CAN = 0"
    by (simp_all add: CanBus_init_buses lka_steering_variant_def)
  with adrv_cadence_counts [of ?CAN] show ?thesis
    by (simp only: simp_thms)
qed

subsection \<open>Cluster and HUD overlay\<close>

lemma cond_upd_other:
  "k \<noteq> k' \<Longrightarrow> (if c then m(k \<mapsto> v) else m) k' = m k'"
  by simp

lemma lane_overlay_lines:
  "ccnc_lane_overlay CC CS lat_active m ''LANELINE_LEFT'' =
     Some (lane_line_priority (leftLaneVisible (hudControl CC)) (leftLaneDepart (hudControl CC))
             lat_active (enabled CC) (leftBlindspot (out CS)) (vEgo (out CS)))"
  "ccnc_lane_overlay CC CS lat_active m ''LANELINE_RIGHT'' =
     Some (lane_line_priority (rightLaneVisible (hudControl CC)) (rightLaneDepart (hudControl CC))
             lat_active (enabled CC) (rightBlindspot (out CS)) (vEgo (out CS)))"
  by (simp_all add: ccnc_lane_overlay_def lane_line_priority_def Let_def)

lemma longitudinal_overlay_other:
  assumes "k \<notin> {''SETSPEED'', ''SETSPEED_HUD'', ''SETSPEED_SPEED'', ''DISTANCE'',
      ''DISTANCE_SPACING'', ''DISTANCE_LEAD'', ''DISTANCE_CAR'', ''SLA_ICON'', ''ALERTS_3'',
      ''NAV_ICON''}"
  shows "ccnc_longitudinal_overlay CV CC CS m k = m k"
  using assms by (simp add: ccnc_longitudinal_overlay_def Let_def cond_upd_other)

lemma longitudinal_overlay_speed:
  "ccnc_longitudinal_overlay CV CC CS m ''SETSPEED_SPEED'' =
     Some (let s = py_round (vCruiseCluster (out CS) * (if is_metric CS then 1 else KPH_TO_MPH CV))
           in if s > 100 then 25 else of_int s)"
  by (simp add: ccnc_longitudinal_overlay_def Let_def cond_upd_other)

lemma ccnc_page_a:
  "msg (create_ccnc CV CAN CP CC CS lat_active ! 0) = ''CCNC_0x161''"
  "bus (create_ccnc CV CAN CP CC CS lat_active ! 0) = ECAN CAN"
  "dat (create_ccnc CV CAN CP CC CS lat_active ! 0) =
     (if openpilotLongitudinalControl CP
      then ccnc_longitudinal_overlay CV CC CS
             (ccnc_lane_overlay CC CS lat_active (ccnc_hide_alerts (msg_161 CS)))
      else ccnc_lane_overlay CC CS lat_active (ccnc_hide_alerts (msg_161 CS)))"
  by (simp_all add: create_ccnc_def Let_def make_can_msg_def)

text \<open>
  C7: in the page-A frame of \<open>create_ccnc\<close>, each lane-line field follows the priority
  order of the specification (not visible gives 1, departing gives 4, neither lateral-active
  nor enabled gives 0, blind spot occupied or speed below 8.94 gives 2, otherwise 6), for
  every combination of the governing flags and whether or not this stack owns longitudinal
  control; in particular the left field is 1 whenever the left lane is not visible.
\<close>

theorem ccnc_lane_lines:
  "msg (create_ccnc CV CAN CP CC CS lat_active ! 0) = ''CCNC_0x161''
   \<and> dat (create_ccnc CV CAN CP CC CS lat_active ! 0) ''LANELINE_LEFT'' =
       Some (lane_line_priority (leftLaneVisible (hudControl CC)) (leftLaneDepart (hudControl CC))
               lat_active (enabled CC) (leftBlindspot (out CS)) (vEgo (out CS)))
   \<and> dat (create_ccnc CV CAN CP CC CS lat_active ! 0) ''LANELINE_RIGHT'' =
       Some (lane_line_priority (rightLaneVisible (hudControl CC)) (rightLaneDepart (hudControl CC))
               lat_active (enabled CC) (rightBlindspot (out CS)) (vEgo (out CS)))
   \<and> (\<not> leftLaneVisible (hudControl CC) \<longrightarrow>
        dat (create_ccnc CV CAN CP CC CS lat_active ! 0) ''LANELINE_LEFT'' = Some 1)"
  by (simp add: ccnc_page_a longitudinal_overlay_other lane_overlay_lines lane_line_priority_def)

theorem ccnc_lane_lines_witness:
  "dat (create_ccnc \<lparr>KPH_TO_MPH = 5 / 8\<rparr>
      (CanBus_init \<lparr>CANFD_LKA_STEERING = 1, CANFD_LKA_STEERING_ALT = 2, CANFD_CAMERA_SCC = 4\<rparr> 0 None None)
      \<lparr>flags = 0, openpilotLongitudinalControl = True\<rparr>
      \<lparr>enabled = True,
        hudControl = \<lparr>leftLaneVisible = False, rightLaneVisible = True, leftLaneDepart = True,
          rightLaneDepart = False, leadVisible = True, leadDistanceBars = 2\<rparr>,
        leftBlinker = False, rightBlinker = False\<rparr>
      \<lparr>msg_161 = [''ALERTS_3'' \<mapsto> 17, ''LANELINE_LEFT'' \<mapsto> 6, ''NAV_ICON'' \<mapsto> 2],
        msg_162 = [''LEAD'' \<mapsto> 1],
        out = \<lparr>leftBlindspot = True, rightBlindspot = False, vEgo = 20, vCruiseCluster = 101\<rparr>,
        is_metric = True\<rparr>
      True ! 0) ''LANELINE_LEFT'' = Some 1
   \<and> dat (create_ccnc \<lparr>KPH_TO_MPH = 5 / 8\<rparr>
      (CanBus_init \<lparr>CANFD_LKA_STEERING = 1, CANFD_LKA_STEERING_ALT = 2, CANFD_CAMERA_SCC = 4\<rparr> 0 None None)
      \<lparr>flags = 0, openpilotLongitudinalControl = True\<rparr>
      \<lparr>enabled = True,
        hudControl = \<lparr>leftLaneVisible = False, rightLaneVisible = True, leftLaneDepart = True,
          rightLaneDepart = False, leadVisible = True, leadDistanceBars = 2\<rparr>,
        leftBlinker = False, rightBlinker = False\<rparr>
      \<lparr>msg_161 = [''ALERTS_3'' \<mapsto> 17, ''LANELINE_LEFT'' \<mapsto> 6, ''NAV_ICON'' \<mapsto> 2],
        msg_162 = [''LEAD'' \<mapsto> 1],
        out = \<lparr>leftBlindspot = True, rightBlindspot = False, vEgo = 20, vCruiseCluster = 101\<rparr>,
        is_metric = True\<rparr>
      True ! 0) ''LANELINE_RIGHT'' = Some 6"
  using ccnc_lane_lines [where CV = "\<lparr>KPH_TO_MPH = 5 / 8\<rparr>"
      and CAN = "CanBus_init \<lparr>CANFD_LKA_STEERING = 1, CANFD_LKA_STEERING_ALT = 2, CANFD_CAMERA_SCC = 4\<rparr> 0 None None"
      and CP = "\<lparr>flags = 0, openpilotLongitudinalControl = True\<rparr>"
      and CC = "\<lparr>enabled = True,
        hudControl = \<lparr>leftLaneVisible = False, rightLaneVisible = True, leftLaneDepart = True,
          rightLaneDepart = False, leadVisible = True, leadDistanceBars = 2\<rparr>,
        leftBlinker = False, rightBlinker = False\<rparr>"
      and CS = "\<lparr>msg_161 = [''ALERTS_3'' \<mapsto> 17, ''LANELINE_LEFT'' \<mapsto> 6, ''NAV_ICON'' \<mapsto> 2],
        msg_162 = [''LEAD'' \<mapsto> 1],
        out = \<lparr>leftBlindspot = True, rightBlindspot = False, vEgo = 20, vCruiseCluster = 101\<rparr>,
        is_metric = True\<rparr>"
      and lat_active = True]
  by (simp add: lane_line_priority_def)

text \<open>
  C1, as the code has it: when this stack owns longitudinal control, the page-A field
  \<open>SETSPEED_SPEED\<close> is the rounded converted cruise speed when that is at most 100, and
  25 when it exceeds 100. Values above 100 are thus not capped at 100: a metric cruise
  speed of 101 gives 25.
\<close>

theorem ccnc_setspeed_speed:
  assumes "openpilotLongitudinalControl CP"
  shows "dat (create_ccnc CV CAN CP CC CS lat_active ! 0) ''SETSPEED_SPEED'' =
     Some (if py_round (vCruiseCluster (out CS) * (if is_metric CS then 1 else KPH_TO_MPH CV)) > 100
           then 25
           else of_int (py_round (vCruiseCluster (out CS)
                                    * (if is_metric CS then 1 else KPH_TO_MPH CV))))"
  using assms by (simp add: ccnc_page_a longitudinal_overlay_speed Let_def)

theorem ccnc_setspeed_speed_witness:
  "dat (create_ccnc \<lparr>KPH_TO_MPH = 5 / 8\<rparr>
      (CanBus_init \<lparr>CANFD_LKA_STEERING = 1, CANFD_LKA_STEERING_ALT = 2, CANFD_CAMERA_SCC = 4\<rparr> 0 None None)
      \<lparr>flags = 0, openpilotLongitudinalControl = True\<rparr>
      \<lparr>enabled = True,
        hudControl = \<lparr>leftLaneVisible = False, rightLaneVisible = True, leftLaneDepart = True,
          rightLaneDepart = False, leadVisible = True, leadDistanceBars = 2\<rparr>,
        leftBlinker = False, rightBlinker = False\<rparr>
      \<lparr>msg_161 = [''ALERTS_3'' \<mapsto> 17, ''LANELINE_LEFT'' \<mapsto> 6, ''NAV_ICON'' \<mapsto> 2],
        msg_162 = [''LEAD'' \<mapsto> 1],
        out = \<lparr>leftBlindspot = True, rightBlindspot = False, vEgo = 20, vCruiseCluster = 60\<rparr>,
        is_metric = False\<rparr>
      True ! 0) ''SETSPEED_SPEED'' = Some 38"
  using ccnc_setspeed_speed [where CV = "\<lparr>KPH_TO_MPH = 5 / 8\<rparr>"
      and CAN = "CanBus_init \<lparr>CANFD_LKA_STEERING = 1, CANFD_LKA_STEERING_ALT = 2, CANFD_CAMERA_SCC = 4\<rparr> 0 None None"
      and CP = "\<lparr>flags = 0, openpilotLongitudinalControl = True\<rparr>"
      and CC = "\<lparr>enabled = True,
        hudControl = \<lparr>leftLaneVisible = False, rightLaneVisible = True, leftLaneDepart = True,
          rightLaneDepart = False, leadVisible = True, leadDistanceBars = 2\<rparr>,
        leftBlinker = False, rightBlinker = False\<rparr>"
      and CS = "\<lparr>msg_161 = [''ALERTS_3'' \<mapsto> 17, ''LANELINE_LEFT'' \<mapsto> 6, ''NAV_ICON'' \<mapsto> 2],
        msg_162 = [''LEAD'' \<mapsto> 1],
        out = \<lparr>leftBlindspot = True, rightBlindspot = False, vEgo = 20, vCruiseCluster = 60\<rparr>,
        is_metric = False\<rparr>"
      and lat_active = True]
  by (simp add: py_round_def Let_def)

text \<open>
  A metric cruise speed of 101 converts to 101, and the field then holds 25, not 100.
\<close>

theorem ccnc_setspeed_counterexample:
  "py_round (101 * 1) = 101
   \<and> dat (create_ccnc \<lparr>KPH_TO_MPH = 5 / 8\<rparr>
      (CanBus_init \<lparr>CANFD_LKA_STEERING = 1, CANFD_LKA_STEERING_ALT = 2, CANFD_CAMERA_SCC = 4\<rparr> 0 None None)
      \<lparr>flags = 0, openpilotLongitudinalControl = True\<rparr>
      \<lparr>enabled = True,
        hudControl = \<lparr>leftLaneVisible = False, rightLaneVisible = True, leftLaneDepart = True,
          rightLaneDepart = False, leadVisible = True, leadDistanceBars = 2\<rparr>,
        leftBlinker = False, rightBlinker = False\<rparr>
      \<lparr>msg_161 = [''ALERTS_3'' \<mapsto> 17, ''LANELINE_LEFT'' \<mapsto> 6, ''NAV_ICON'' \<mapsto> 2],
        msg_162 = [''LEAD'' \<mapsto> 1],
        out = \<lparr>leftBlindspot = True, rightBlindspot = False, vEgo = 20, vCruiseCluster = 101\<rparr>,
        is_metric = True\<rparr>
      True ! 0) ''SETSPEED_SPEED'' = Some 25
   \<and> dat (create_ccnc \<lparr>KPH_TO_MPH = 5 / 8\<rparr>
      (CanBus_init \<lparr>CANFD_LKA_STEERING = 1, CANFD_LKA_STEERING_ALT = 2, CANFD_CAMERA_SCC = 4\<rparr> 0 None None)
      \<lparr>flags = 0, openpilotLongitudinalControl = True\<rparr>
      \<lparr>enabled = True,
        hudControl = \<lparr>leftLaneVisible = False, rightLaneVisible = True, leftLaneDepart = True,
          rightLaneDepart = False, leadVisible = True, leadDistanceBars = 2\<rparr>,
        leftBlinker = False, rightBlinker = False\<rparr>
      \<lparr>msg_161 = [''ALERTS_3'' \<mapsto> 17, ''LANELINE_LEFT'' \<mapsto> 6, ''NAV_ICON'' \<mapsto> 2],
        msg_162 = [''LEAD'' \<mapsto> 1],
        out = \<lparr>leftBlindspot = True, rightBlindspot = False, vEgo = 20, vCruiseCluster = 101\<rparr>,
        is_metric = True\<rparr>
      True ! 0) ''SETSPEED_SPEED'' \<noteq> Some 100"
  by (simp add: ccnc_page_a longitudinal_overlay_speed py_round_def Let_def)

end
